theory Spec2Isabelle
  imports Complex_Main
begin

section \<open>The training loop of notebook 3 (Custom Model and Layer)\<close>

text \<open>
  The only authored control logic of the repository is the function \<open>train\<close> of
  \<^verbatim>\<open>notebooks/3_Custom_Model_and_Layer.ipynb\<close>:
  \<^verbatim>\<open>
  def train(x, y, model, learning_rate=.01, max_epochs=10000, min_tol=1e-3, verbose=1000):
      best_loss = None
      for it in range(max_epochs):
          with tf.GradientTape() as tape:
              y_hat = model(x)
              loss = tf.reduce_mean(tf.square(y - y_hat))

          if not best_loss or best_loss > loss.numpy():
              best_loss = loss.numpy()
          if best_loss < min_tol:
              if verbose: print('terminated as loss less than minimal tolerance')
              break

          if verbose and not (it % verbose):
              print('mse loss at iteration {} is {:5.4f}'.format(it, loss))

          gradients = tape.gradient(loss, model.variables)
          for variables, grads in zip(model.variables, gradients):
              variables.assign_add(-learning_rate * grads)
  \<close>
  Modelling decisions.
  \<^item> A float of the framework is a value of \<open>f32\<close>: a real number or NaN. Arithmetic
    with NaN gives NaN, every comparison with NaN is false, and NaN is true as a
    condition, as in the source. Rounding and the infinities are outside the model.
  \<^item> Tensors are flattened to lists of floats, and \<open>model.variables\<close> is the list of the
    scalar entries of all variables, in order. The forward pass is taken to return a
    tensor of the shape of \<open>y\<close>, which is the precondition of \<open>train\<close>: broadcasting
    and the error raised on incompatible shapes are outside the model.
  \<^item> The model is an opaque forward pass \<open>model vars x\<close> that reads the current values
    of \<open>model.variables\<close>; the tape is an opaque function \<open>gradient\<close> from the values
    of the variables that the forward pass saw to one gradient per variable. Neither
    raises in the model.
  \<^item> The keyword arguments are the fields of the record \<open>config\<close>. \<open>max_epochs\<close> and
    \<open>verbose\<close> are Python integers, hence \<open>int\<close>; \<open>mod\<close> on \<open>int\<close> is floored, as
    Python's \<open>%\<close> is.
  \<^item> \<open>print\<close> appends the text of a line to \<open>printed\<close>.
  \<^item> Two fields of the state are observers and not variables of the source:
    \<open>tape_calls\<close> lists the parameter values for which \<open>tape.gradient\<close> was asked, and
    \<open>history\<close> lists, for each iteration entered, the loss computed and the value of
    \<open>best_loss\<close> after the update statement.
\<close>

subsection \<open>Floats\<close>

datatype f32 = Num real | NaN

fun f32_add :: "f32 \<Rightarrow> f32 \<Rightarrow> f32" where
  "f32_add (Num a) (Num b) = Num (a + b)"
| "f32_add a b = NaN"

fun f32_sub :: "f32 \<Rightarrow> f32 \<Rightarrow> f32" where
  "f32_sub (Num a) (Num b) = Num (a - b)"
| "f32_sub a b = NaN"

fun f32_mul :: "f32 \<Rightarrow> f32 \<Rightarrow> f32" where
  "f32_mul (Num a) (Num b) = Num (a * b)"
| "f32_mul a b = NaN"

text \<open>\<open>a < b\<close>; \<open>a > b\<close> is \<open>f32_less b a\<close>.\<close>

fun f32_less :: "f32 \<Rightarrow> f32 \<Rightarrow> bool" where
  "f32_less (Num a) (Num b) = (a < b)"
| "f32_less a b = False"

text \<open>The truth value of a float as a condition: false for zero only.\<close>

fun truthy :: "f32 \<Rightarrow> bool" where
  "truthy (Num a) = (a \<noteq> 0)"
| "truthy NaN = True"

subsection \<open>Data\<close>

record config =
  learning_rate :: real
  max_epochs :: int
  min_tol :: real
  verbose :: int

record train_state =
  variables :: "f32 list"
  best_loss :: "f32 option"
  printed :: "string list"
  tape_calls :: "f32 list list"
  history :: "(f32 \<times> f32) list"

datatype 'a flow = Break 'a | Next 'a

fun state_of :: "'a flow \<Rightarrow> 'a" where
  "state_of (Break s) = s"
| "state_of (Next s) = s"

fun broke :: "'a flow \<Rightarrow> bool" where
  "broke (Break s) = True"
| "broke (Next s) = False"

subsection \<open>The printed lines\<close>

definition digit :: "nat \<Rightarrow> char" where
  "digit d = ''0123456789'' ! d"

text \<open>\<open>'{}'.format(it)\<close> for a non-negative integer.\<close>

fun decimal :: "nat \<Rightarrow> string" where
  "decimal n = (if n < 10 then [digit n] else decimal (n div 10) @ [digit (n mod 10)])"

declare decimal.simps [simp del]

text \<open>The nearest integer, a tie going to the even one, as the formatter rounds.\<close>

definition round_half_even :: "real \<Rightarrow> int" where
  "round_half_even r =
     (let f = \<lfloor>r\<rfloor>; d = r - of_int f
      in if d < 1 / 2 then f
         else if 1 / 2 < d then f + 1
         else if even f then f else f + 1)"

text \<open>
  \<open>'{:5.4f}'.format(loss)\<close>: the sign, the integer part, a point and exactly four
  decimals, the value rounded to the nearest multiple of \<open>0.0001\<close>. The minimal width
  5 pads nothing but \<open>nan\<close>.
\<close>

definition fixed4 :: "f32 \<Rightarrow> string" where
  "fixed4 v =
     (case v of
        NaN \<Rightarrow> ''  nan''
      | Num r \<Rightarrow>
          (let q = nat (round_half_even (\<bar>r\<bar> * 10000))
           in (if r < 0 then ''-'' else []) @ decimal (q div 10000) @ ''.'' @
              [digit (q div 1000 mod 10), digit (q div 100 mod 10),
               digit (q div 10 mod 10), digit (q mod 10)]))"

text \<open>\<^verbatim>\<open>'mse loss at iteration {} is {:5.4f}'.format(it, loss)\<close>\<close>

definition progress_line :: "nat \<Rightarrow> f32 \<Rightarrow> string" where
  "progress_line it loss = ''mse loss at iteration '' @ decimal it @ '' is '' @ fixed4 loss"

definition terminated_notice :: string where
  "terminated_notice = ''terminated as loss less than minimal tolerance''"

subsection \<open>The loss\<close>

definition square :: "f32 \<Rightarrow> f32" where
  "square r = f32_mul r r"

text \<open>\<open>y - y_hat\<close> on tensors of the same shape.\<close>

definition tensor_sub :: "f32 list \<Rightarrow> f32 list \<Rightarrow> f32 list" where
  "tensor_sub a b = map (\<lambda>(u, v). f32_sub u v) (zip a b)"

text \<open>The mean over all entries; the mean of an empty tensor is NaN (\<open>0 / 0\<close>).\<close>

definition reduce_mean :: "f32 list \<Rightarrow> f32" where
  "reduce_mean t =
     (if t = [] then NaN
      else case foldr f32_add t (Num 0) of
             NaN \<Rightarrow> NaN
           | Num s \<Rightarrow> Num (s / real (length t)))"

definition mse_loss :: "(f32 list \<Rightarrow> 'x \<Rightarrow> f32 list) \<Rightarrow> 'x \<Rightarrow> f32 list \<Rightarrow> f32 list \<Rightarrow> f32" where
  "mse_loss model x y vars =
     (let y_hat = model vars x
      in reduce_mean (map square (tensor_sub y y_hat)))"

subsection \<open>The statements of the loop body\<close>

text \<open>
  \<^verbatim>\<open>if not best_loss or best_loss > loss.numpy(): best_loss = loss.numpy()\<close>.
  \<open>not best_loss\<close> holds for \<open>None\<close> and, by Python's truth value of a number, for
  \<open>0.0\<close> too. A best loss of NaN is true as a condition and greater than nothing, so
  it is kept.
\<close>

definition update_best :: "f32 option \<Rightarrow> f32 \<Rightarrow> f32" where
  "update_best best loss =
     (case best of
        None \<Rightarrow> loss
      | Some b \<Rightarrow> if \<not> truthy b \<or> f32_less loss b then loss else b)"

text \<open>
  \<^verbatim>\<open>for variables, grads in zip(model.variables, gradients):
      variables.assign_add(-learning_rate * grads)\<close>.
  \<open>zip\<close> stops at the shorter list, so variables without a gradient keep their value.
\<close>

fun assign_add_all :: "real \<Rightarrow> f32 list \<Rightarrow> f32 list \<Rightarrow> f32 list" where
  "assign_add_all lr (v # vs) (g # gs) =
     f32_add v (f32_mul (Num (- lr)) g) # assign_add_all lr vs gs"
| "assign_add_all lr vs [] = vs"
| "assign_add_all lr [] gs = []"

definition loop_body ::
  "'x \<Rightarrow> f32 list \<Rightarrow> (f32 list \<Rightarrow> 'x \<Rightarrow> f32 list) \<Rightarrow> (f32 list \<Rightarrow> f32 list)
     \<Rightarrow> config \<Rightarrow> nat \<Rightarrow> train_state \<Rightarrow> train_state flow" where
  "loop_body x y model gradient cfg it st =
     (let loss = mse_loss model x y (variables st);
          best = update_best (best_loss st) loss;
          st1 = st\<lparr>best_loss := Some best, history := history st @ [(loss, best)]\<rparr>
      in if f32_less best (Num (min_tol cfg))
         then Break (if verbose cfg \<noteq> 0
                     then st1\<lparr>printed := printed st1 @ [terminated_notice]\<rparr>
                     else st1)
         else
           let st2 = (if verbose cfg \<noteq> 0 \<and> int it mod verbose cfg = 0
                      then st1\<lparr>printed := printed st1 @ [progress_line it loss]\<rparr>
                      else st1);
               gradients = gradient (variables st2);
               st3 = st2\<lparr>tape_calls := tape_calls st2 @ [variables st2]\<rparr>
           in Next (st3\<lparr>variables :=
                          assign_add_all (learning_rate cfg) (variables st3) gradients\<rparr>))"

subsection \<open>The loop and the call\<close>

text \<open>\<open>for it in its: body\<close>, where the body may \<open>break\<close>.\<close>

fun for_range :: "(nat \<Rightarrow> 's \<Rightarrow> 's flow) \<Rightarrow> nat list \<Rightarrow> 's \<Rightarrow> 's flow" where
  "for_range body [] st = Next st"
| "for_range body (it # its) st =
     (case body it st of
        Break st' \<Rightarrow> Break st'
      | Next st' \<Rightarrow> for_range body its st')"

definition init_state :: "f32 list \<Rightarrow> train_state" where
  "init_state vars0 =
     \<lparr>variables = vars0, best_loss = None, printed = [], tape_calls = [], history = []\<rparr>"

text \<open>
  The run of the loop from \<open>best_loss = None\<close>: \<open>Break\<close> when the loop was left by
  \<open>break\<close>, \<open>Next\<close> when \<open>range(max_epochs)\<close> was exhausted.
\<close>

definition train_run ::
  "'x \<Rightarrow> f32 list \<Rightarrow> (f32 list \<Rightarrow> 'x \<Rightarrow> f32 list) \<Rightarrow> (f32 list \<Rightarrow> f32 list)
     \<Rightarrow> config \<Rightarrow> f32 list \<Rightarrow> train_state flow" where
  "train_run x y model gradient cfg vars0 =
     for_range (loop_body x y model gradient cfg) [0..<nat (max_epochs cfg)] (init_state vars0)"

text \<open>
  What a call that finishes leaves to its caller: the value of the call expression, the
  values of \<open>model.variables\<close> and the lines printed. A returned training state would
  be the pair of the best loss and the number of iterations; the body of \<open>train\<close> has no
  \<open>return\<close> statement, so the value of the call is Python's \<open>None\<close>.
\<close>

record call_result =
  returned :: "(f32 option \<times> nat) option"
  model_variables :: "f32 list"
  stdout :: "string list"

definition train ::
  "'x \<Rightarrow> f32 list \<Rightarrow> (f32 list \<Rightarrow> 'x \<Rightarrow> f32 list) \<Rightarrow> (f32 list \<Rightarrow> f32 list)
     \<Rightarrow> config \<Rightarrow> f32 list \<Rightarrow> call_result" where
  "train x y model gradient cfg vars0 =
     (let st = state_of (train_run x y model gradient cfg vars0)
      in \<lparr>returned = None, model_variables = variables st, stdout = printed st\<rparr>)"

subsection \<open>Reading a run\<close>

text \<open>A line that starts as a progress line does.\<close>

definition is_progress :: "string \<Rightarrow> bool" where
  "is_progress s = (take 22 s = ''mse loss at iteration '')"

text \<open>
  The progress lines of the iterations \<open>0 ..< length losses\<close>, where \<open>losses ! it\<close> is the
  loss computed in iteration \<open>it\<close>: one line for each \<open>it\<close> that passes the test
  \<^verbatim>\<open>verbose and not (it % verbose)\<close>.
\<close>

definition progress_lines :: "int \<Rightarrow> f32 list \<Rightarrow> string list" where
  "progress_lines v losses =
     map (\<lambda>it. progress_line it (losses ! it))
       (filter (\<lambda>it. v \<noteq> 0 \<and> int it mod v = 0) [0..<length losses])"

text \<open>
  The iteration at which a run ended: the index of the iteration that executed \<open>break\<close>,
  or \<open>max_epochs\<close> when the range was exhausted.
\<close>

definition terminating_iteration :: "train_state flow \<Rightarrow> nat" where
  "terminating_iteration r =
     (case r of Break s \<Rightarrow> length (history s) - 1 | Next s \<Rightarrow> length (history s))"

text \<open>The loop has not met a best loss below the tolerance so far.\<close>

definition not_yet_below :: "config \<Rightarrow> train_state \<Rightarrow> bool" where
  "not_yet_below cfg s =
     (case best_loss s of None \<Rightarrow> True | Some b \<Rightarrow> \<not> f32_less b (Num (min_tol cfg)))"

text \<open>A mean of squares is a non-negative number or NaN.\<close>

definition nonneg_or_nan :: "f32 \<Rightarrow> bool" where
  "nonneg_or_nan v = (case v of NaN \<Rightarrow> True | Num r \<Rightarrow> 0 \<le> r)"

text \<open>
  The best loss is unset at the initial variables, or a number that is not below the
  tolerance: no NaN has become the best loss.
\<close>

definition best_is_number :: "config \<Rightarrow> f32 list \<Rightarrow> train_state \<Rightarrow> bool" where
  "best_is_number cfg vars0 s =
     (case best_loss s of
        None \<Rightarrow> variables s = vars0
      | Some NaN \<Rightarrow> False
      | Some (Num b) \<Rightarrow> \<not> b < min_tol cfg)"

subsection \<open>The variant that tests the current loss\<close>

text \<open>
  The loop body with the termination check \<open>loss < min_tol\<close> in place of
  \<open>best_loss < min_tol\<close>, and nothing else changed. It is not code of the repository:
  it is the loop that \<open>train\<close> is compared with.
\<close>

definition loop_body_current_loss ::
  "'x \<Rightarrow> f32 list \<Rightarrow> (f32 list \<Rightarrow> 'x \<Rightarrow> f32 list) \<Rightarrow> (f32 list \<Rightarrow> f32 list)
     \<Rightarrow> config \<Rightarrow> nat \<Rightarrow> train_state \<Rightarrow> train_state flow" where
  "loop_body_current_loss x y model gradient cfg it st =
     (let loss = mse_loss model x y (variables st);
          best = update_best (best_loss st) loss;
          st1 = st\<lparr>best_loss := Some best, history := history st @ [(loss, best)]\<rparr>
      in if f32_less loss (Num (min_tol cfg))
         then Break (if verbose cfg \<noteq> 0
                     then st1\<lparr>printed := printed st1 @ [terminated_notice]\<rparr>
                     else st1)
         else
           let st2 = (if verbose cfg \<noteq> 0 \<and> int it mod verbose cfg = 0
                      then st1\<lparr>printed := printed st1 @ [progress_line it loss]\<rparr>
                      else st1);
               gradients = gradient (variables st2);
               st3 = st2\<lparr>tape_calls := tape_calls st2 @ [variables st2]\<rparr>
           in Next (st3\<lparr>variables :=
                          assign_add_all (learning_rate cfg) (variables st3) gradients\<rparr>))"

definition train_run_current_loss ::
  "'x \<Rightarrow> f32 list \<Rightarrow> (f32 list \<Rightarrow> 'x \<Rightarrow> f32 list) \<Rightarrow> (f32 list \<Rightarrow> f32 list)
     \<Rightarrow> config \<Rightarrow> f32 list \<Rightarrow> train_state flow" where
  "train_run_current_loss x y model gradient cfg vars0 =
     for_range (loop_body_current_loss x y model gradient cfg)
       [0..<nat (max_epochs cfg)] (init_state vars0)"

subsection \<open>Models to run the loop on\<close>

text \<open>
  The notebook's first \<open>LinearModel\<close>, \<^verbatim>\<open>tf.matmul(x, self.w)\<close>, with
  \<open>input_dim = output_dim = 1\<close>: one scalar weight, and the derivative of the mean
  squared error with respect to it, which is what the tape returns for this model.
\<close>

definition linear_model :: "f32 list \<Rightarrow> f32 list \<Rightarrow> f32 list" where
  "linear_model vars x = (case vars of [w] \<Rightarrow> map (\<lambda>xi. f32_mul xi w) x | _ \<Rightarrow> [])"

definition linear_gradient :: "f32 list \<Rightarrow> f32 list \<Rightarrow> f32 list \<Rightarrow> f32 list" where
  "linear_gradient x y vars =
     (case vars of
        [w] \<Rightarrow> [reduce_mean (map (\<lambda>(xi, yi).
                   f32_mul (f32_mul (Num (- 2)) xi) (f32_sub yi (f32_mul xi w))) (zip x y))]
      | _ \<Rightarrow> [])"

text \<open>
  A one-weight model whose output is NaN at \<open>w = 0\<close> and \<open>x * w\<close> elsewhere, as
  \<^verbatim>\<open>tf.matmul(x, self.w) * (self.w / self.w)\<close> is (\<open>0 / 0\<close> is NaN).
\<close>

definition nan_at_zero_model :: "f32 list \<Rightarrow> f32 list \<Rightarrow> f32 list" where
  "nan_at_zero_model vars x =
     (case vars of
        [w] \<Rightarrow> map (\<lambda>xi. if w = Num 0 then NaN else f32_mul xi w) x
      | _ \<Rightarrow> [])"

text \<open>
  A tape that returns the same gradient whatever the values of the variables, as the
  tape does for a forward pass with a custom gradient.
\<close>

definition constant_gradient :: "f32 \<Rightarrow> f32 list \<Rightarrow> f32 list" where
  "constant_gradient g vars = [g]"

text \<open>The defaults of the keyword arguments of \<open>train\<close>.\<close>

definition default_config :: config where
  "default_config =
     \<lparr>learning_rate = 1 / 100, max_epochs = 10000, min_tol = 1 / 1000, verbose = 1000\<rparr>"

section \<open>Properties of the training loop\<close>

subsection \<open>Arithmetic on floats and the loss\<close>

lemma f32_less_NaN [simp]: "\<not> f32_less NaN b" "\<not> f32_less a NaN"
  by (cases a; simp)+

lemma f32_add_neg_mul: "f32_add v (f32_mul (Num (- lr)) g) = f32_sub v (f32_mul (Num lr) g)"
  by (cases v; cases g) simp_all

lemma nonneg_or_nan_square: "nonneg_or_nan (square v)"
  by (cases v) (simp_all add: nonneg_or_nan_def square_def)

lemma nonneg_or_nan_sum:
  "(\<And>v. v \<in> set t \<Longrightarrow> nonneg_or_nan v) \<Longrightarrow> nonneg_or_nan (foldr f32_add t (Num 0))"
proof (induction t)
  case Nil
  then show ?case by (simp add: nonneg_or_nan_def)
next
  case (Cons a t)
  then have a: "nonneg_or_nan a" and t: "nonneg_or_nan (foldr f32_add t (Num 0))" by simp_all
  then show ?case
    by (cases a; cases "foldr f32_add t (Num 0)") (simp_all add: nonneg_or_nan_def)
qed

lemma nonneg_or_nan_reduce_mean:
  assumes "\<And>v. v \<in> set t \<Longrightarrow> nonneg_or_nan v"
  shows "nonneg_or_nan (reduce_mean t)"
proof (cases "t = []")
  case True
  then show ?thesis by (simp add: reduce_mean_def nonneg_or_nan_def)
next
  case False
  have "nonneg_or_nan (foldr f32_add t (Num 0))"
    using assms by (rule nonneg_or_nan_sum)
  then show ?thesis
    by (cases "foldr f32_add t (Num 0)") (simp_all add: reduce_mean_def nonneg_or_nan_def False)
qed

lemma mse_loss_nonneg_or_nan: "nonneg_or_nan (mse_loss model x y vars)"
  unfolding mse_loss_def Let_def
  by (rule nonneg_or_nan_reduce_mean) (auto simp: nonneg_or_nan_square)

lemma mse_loss_not_below: "t \<le> 0 \<Longrightarrow> \<not> f32_less (mse_loss model x y vars) (Num t)"
  using mse_loss_nonneg_or_nan[of model x y vars]
  by (cases "mse_loss model x y vars") (simp_all add: nonneg_or_nan_def)

subsection \<open>The text of the lines\<close>

lemma digit_less_10: "d < 10 \<Longrightarrow> digit d \<in> set ''0123456789''"
  unfolding digit_def by (rule nth_mem) simp

lemma digit_inj: "a < 10 \<Longrightarrow> b < 10 \<Longrightarrow> digit a = digit b \<Longrightarrow> a = b"
proof -
  have "distinct ''0123456789''" by simp
  moreover assume "a < 10" "b < 10" "digit a = digit b"
  ultimately show ?thesis by (simp add: digit_def nth_eq_iff_index_eq)
qed

lemma decimal_nonempty: "decimal n \<noteq> []"
  by (subst decimal.simps) simp

lemma decimal_digits: "set (decimal n) \<subseteq> set ''0123456789''"
proof (induction n rule: decimal.induct)
  case (1 n)
  show ?case
  proof (cases "n < 10")
    case True
    then show ?thesis using digit_less_10[of n] by (subst decimal.simps) simp
  next
    case False
    have "n mod 10 < 10" by simp
    with False 1 digit_less_10[of "n mod 10"] show ?thesis
      by (subst decimal.simps) simp
  qed
qed

lemma decimal_no_space: "CHR '' '' \<notin> set (decimal n)"
  using decimal_digits[of n] by auto

lemma decimal_inj: "decimal m = decimal n \<Longrightarrow> m = n"
proof (induction m arbitrary: n rule: decimal.induct)
  case (1 m)
  show ?case
  proof (cases "m < 10")
    case m: True
    show ?thesis
    proof (cases "n < 10")
      case True
      with m 1(2) show ?thesis by (simp add: decimal.simps[of m] decimal.simps[of n] digit_inj)
    next
      case False
      with m 1(2) decimal_nonempty[of "n div 10"] show ?thesis
        by (simp add: decimal.simps[of m] decimal.simps[of n])
    qed
  next
    case m: False
    show ?thesis
    proof (cases "n < 10")
      case True
      with m 1(2) decimal_nonempty[of "m div 10"] show ?thesis
        by (simp add: decimal.simps[of m] decimal.simps[of n])
    next
      case False
      with m 1(2) have e: "decimal (m div 10) = decimal (n div 10)"
        and d: "digit (m mod 10) = digit (n mod 10)"
        by (simp_all add: decimal.simps[of m] decimal.simps[of n])
      from 1(1)[OF m e] have "m div 10 = n div 10" .
      moreover from d have "m mod 10 = n mod 10" by (simp add: digit_inj)
      ultimately show ?thesis by (metis div_mult_mod_eq)
    qed
  qed
qed

lemma split_at_first:
  assumes "c \<notin> set xs" and "c \<notin> set xs'" and "xs @ c # r = xs' @ c # r'"
  shows "xs = xs' \<and> r = r'"
proof -
  have "takeWhile (\<lambda>a. a \<noteq> c) (xs @ c # r) = xs @ takeWhile (\<lambda>a. a \<noteq> c) (c # r)"
    by (rule takeWhile_append2) (use assms(1) in auto)
  then have "takeWhile (\<lambda>a. a \<noteq> c) (xs @ c # r) = xs" by simp
  moreover have "takeWhile (\<lambda>a. a \<noteq> c) (xs' @ c # r') = xs' @ takeWhile (\<lambda>a. a \<noteq> c) (c # r')"
    by (rule takeWhile_append2) (use assms(2) in auto)
  then have "takeWhile (\<lambda>a. a \<noteq> c) (xs' @ c # r') = xs'" by simp
  ultimately have "xs = xs'" using assms(3) by simp
  with assms(3) show ?thesis by simp
qed

lemma progress_line_eq_iff:
  "progress_line it l = progress_line it' l' \<longleftrightarrow> it = it' \<and> fixed4 l = fixed4 l'"
proof
  assume "progress_line it l = progress_line it' l'"
  then have "decimal it @ CHR '' '' # (''is '' @ fixed4 l) = decimal it' @ CHR '' '' # (''is '' @ fixed4 l')"
    by (simp add: progress_line_def)
  from split_at_first[OF decimal_no_space decimal_no_space this]
  show "it = it' \<and> fixed4 l = fixed4 l'" by (simp add: decimal_inj)
next
  assume "it = it' \<and> fixed4 l = fixed4 l'"
  then show "progress_line it l = progress_line it' l'" by (simp add: progress_line_def)
qed

lemma is_progress_progress_line: "is_progress (progress_line it l)"
  by (simp add: is_progress_def progress_line_def)

lemma is_progress_terminated_notice: "\<not> is_progress terminated_notice"
  by (simp add: is_progress_def terminated_notice_def)

lemma progress_line_not_notice: "progress_line it l \<noteq> terminated_notice"
  using is_progress_progress_line[of it l] is_progress_terminated_notice by auto

lemma round_half_even_nearest: "\<bar>of_int (round_half_even r) - r\<bar> \<le> 1 / 2"
proof -
  have "of_int \<lfloor>r\<rfloor> \<le> r" "r < of_int \<lfloor>r\<rfloor> + 1" by linarith+
  then show ?thesis by (auto simp: round_half_even_def Let_def)
qed

lemma round_half_even_nonneg: "0 \<le> r \<Longrightarrow> 0 \<le> round_half_even r"
  by (auto simp: round_half_even_def Let_def)

text \<open>
  The text of a number: its sign, the integer part and four decimals of the multiple
  of \<open>0.0001\<close> nearest to it.
\<close>

lemma fixed4_four_decimals:
  "\<exists>q. \<bar>real q / 10000 - \<bar>r\<bar>\<bar> \<le> 1 / 20000 \<and>
     fixed4 (Num r) = (if r < 0 then ''-'' else []) @ decimal (q div 10000) @ ''.'' @
       [digit (q div 1000 mod 10), digit (q div 100 mod 10),
        digit (q div 10 mod 10), digit (q mod 10)]"
proof -
  let ?q = "nat (round_half_even (\<bar>r\<bar> * 10000))"
  have "0 \<le> round_half_even (\<bar>r\<bar> * 10000)" by (rule round_half_even_nonneg) simp
  then have "real ?q = of_int (round_half_even (\<bar>r\<bar> * 10000))" by simp
  with round_half_even_nearest[of "\<bar>r\<bar> * 10000"]
  have "\<bar>real ?q - \<bar>r\<bar> * 10000\<bar> \<le> 1 / 2" by simp
  then have "\<bar>real ?q / 10000 - \<bar>r\<bar>\<bar> \<le> 1 / 20000" by (simp add: field_simps abs_le_iff)
  then show ?thesis by (intro exI[of _ ?q]) (simp add: fixed4_def Let_def)
qed

subsection \<open>The loop body, branch by branch\<close>

lemma loop_body_break:
  assumes "f32_less (update_best (best_loss st) (mse_loss model x y (variables st))) (Num (min_tol cfg))"
  shows "loop_body x y model gradient cfg it st =
     Break (st\<lparr>best_loss := Some (update_best (best_loss st) (mse_loss model x y (variables st))),
               printed := printed st @ (if verbose cfg \<noteq> 0 then [terminated_notice] else []),
               history := history st @ [(mse_loss model x y (variables st), update_best (best_loss st) (mse_loss model x y (variables st)))]\<rparr>)"
  using assms by (simp add: loop_body_def Let_def)

lemma loop_body_next:
  assumes "\<not> f32_less (update_best (best_loss st) (mse_loss model x y (variables st))) (Num (min_tol cfg))"
  shows "loop_body x y model gradient cfg it st =
     Next (st\<lparr>variables := assign_add_all (learning_rate cfg) (variables st) (gradient (variables st)),
              best_loss := Some (update_best (best_loss st) (mse_loss model x y (variables st))),
              printed := printed st @
                (if verbose cfg \<noteq> 0 \<and> int it mod verbose cfg = 0
                 then [progress_line it (mse_loss model x y (variables st))] else []),
              tape_calls := tape_calls st @ [variables st],
              history := history st @ [(mse_loss model x y (variables st), update_best (best_loss st) (mse_loss model x y (variables st)))]\<rparr>)"
  using assms by (simp add: loop_body_def Let_def)

lemma loop_body_Next_D:
  assumes "loop_body x y model gradient cfg it st = Next s'"
  shows "\<not> f32_less (update_best (best_loss st) (mse_loss model x y (variables st))) (Num (min_tol cfg))"
    and "s' = st\<lparr>variables := assign_add_all (learning_rate cfg) (variables st) (gradient (variables st)),
              best_loss := Some (update_best (best_loss st) (mse_loss model x y (variables st))),
              printed := printed st @
                (if verbose cfg \<noteq> 0 \<and> int it mod verbose cfg = 0
                 then [progress_line it (mse_loss model x y (variables st))] else []),
              tape_calls := tape_calls st @ [variables st],
              history := history st @ [(mse_loss model x y (variables st), update_best (best_loss st) (mse_loss model x y (variables st)))]\<rparr>"
proof -
  show c: "\<not> f32_less (update_best (best_loss st) (mse_loss model x y (variables st))) (Num (min_tol cfg))"
    using assms loop_body_break[of st model x y cfg gradient it] by auto
  show "s' = st\<lparr>variables := assign_add_all (learning_rate cfg) (variables st) (gradient (variables st)),
              best_loss := Some (update_best (best_loss st) (mse_loss model x y (variables st))),
              printed := printed st @
                (if verbose cfg \<noteq> 0 \<and> int it mod verbose cfg = 0
                 then [progress_line it (mse_loss model x y (variables st))] else []),
              tape_calls := tape_calls st @ [variables st],
              history := history st @ [(mse_loss model x y (variables st), update_best (best_loss st) (mse_loss model x y (variables st)))]\<rparr>"
    using assms loop_body_next[OF c, of gradient it] by simp
qed

lemma loop_body_Break_D:
  assumes "loop_body x y model gradient cfg it st = Break s'"
  shows "f32_less (update_best (best_loss st) (mse_loss model x y (variables st))) (Num (min_tol cfg))"
    and "s' = st\<lparr>best_loss := Some (update_best (best_loss st) (mse_loss model x y (variables st))),
               printed := printed st @ (if verbose cfg \<noteq> 0 then [terminated_notice] else []),
               history := history st @ [(mse_loss model x y (variables st), update_best (best_loss st) (mse_loss model x y (variables st)))]\<rparr>"
proof -
  show c: "f32_less (update_best (best_loss st) (mse_loss model x y (variables st))) (Num (min_tol cfg))"
    using assms loop_body_next[of st model x y cfg gradient it] by auto
  show "s' = st\<lparr>best_loss := Some (update_best (best_loss st) (mse_loss model x y (variables st))),
               printed := printed st @ (if verbose cfg \<noteq> 0 then [terminated_notice] else []),
               history := history st @ [(mse_loss model x y (variables st), update_best (best_loss st) (mse_loss model x y (variables st)))]\<rparr>"
    using assms loop_body_break[OF c, of gradient it] by simp
qed

subsection \<open>Loops over a range\<close>

lemma for_range_upt:
  assumes "I a st" and "a \<le> b"
    and nxt: "\<And>it s s'. it < b \<Longrightarrow> I it s \<Longrightarrow> body it s = Next s' \<Longrightarrow> I (Suc it) s'"
    and brk: "\<And>it s s'. it < b \<Longrightarrow> I it s \<Longrightarrow> body it s = Break s' \<Longrightarrow> Q s'"
  shows "case for_range body [a..<b] st of Break s \<Rightarrow> Q s | Next s \<Rightarrow> I b s"
  using assms(1,2)
proof (induction "b - a" arbitrary: a st)
  case 0
  then show ?case by simp
next
  case (Suc n)
  then have lt: "a < b" by simp
  then have unf: "[a..<b] = a # [Suc a..<b]" by (simp add: upt_conv_Cons)
  show ?case
  proof (cases "body a st")
    case (Break s')
    have "Q s'" using brk[of a st s'] lt Suc.prems(1) Break by simp
    then show ?thesis by (simp add: unf Break)
  next
    case (Next s')
    have "I (Suc a) s'" using nxt[of a st s'] lt Suc.prems(1) Next by simp
    moreover have "n = b - Suc a" using Suc.hyps(2) by simp
    moreover have "Suc a \<le> b" using lt by simp
    ultimately have "case for_range body [Suc a..<b] s' of Break s \<Rightarrow> Q s | Next s \<Rightarrow> I b s"
      using Suc.hyps(1) by blast
    then show ?thesis by (simp add: unf Next)
  qed
qed

lemma train_run_rule:
  assumes "I 0 (init_state vars0)"
    and "\<And>it s s'. it < nat (max_epochs cfg) \<Longrightarrow> I it s \<Longrightarrow>
           loop_body x y model gradient cfg it s = Next s' \<Longrightarrow> I (Suc it) s'"
    and "\<And>it s s'. it < nat (max_epochs cfg) \<Longrightarrow> I it s \<Longrightarrow>
           loop_body x y model gradient cfg it s = Break s' \<Longrightarrow> Q s'"
  shows "case train_run x y model gradient cfg vars0 of
           Break s \<Rightarrow> Q s | Next s \<Rightarrow> I (nat (max_epochs cfg)) s"
  unfolding train_run_def
  by (rule for_range_upt[where I = I and Q = Q]) (use assms in auto)

lemma for_range_agree:
  assumes "I st"
    and "\<And>it s. I s \<Longrightarrow> body1 it s = body2 it s"
    and "\<And>it s s'. I s \<Longrightarrow> body2 it s = Next s' \<Longrightarrow> I s'"
  shows "for_range body1 its st = for_range body2 its st"
  using assms(1)
proof (induction its arbitrary: st)
  case Nil
  then show ?case by simp
next
  case (Cons it its)
  show ?case
  proof (cases "body2 it st")
    case (Break s')
    with assms(2)[OF Cons.prems, of it] show ?thesis by simp
  next
    case (Next s')
    with assms(3)[OF Cons.prems] have "I s'" by simp
    with Cons.IH have "for_range body1 its s' = for_range body2 its s'" by simp
    with Next assms(2)[OF Cons.prems, of it] show ?thesis by simp
  qed
qed

subsection \<open>The best loss and the tolerance\<close>

lemma update_best_below_imp:
  assumes "\<And>b. best = Some b \<Longrightarrow> \<not> f32_less b tol"
    and "f32_less (update_best best loss) tol"
  shows "f32_less loss tol"
proof (cases best)
  case None
  with assms(2) show ?thesis by (simp add: update_best_def)
next
  case (Some b)
  with assms(1) have "\<not> f32_less b tol" by simp
  with Some assms(2) show ?thesis by (auto simp: update_best_def split: if_splits)
qed

lemma not_yet_below_Next:
  assumes "loop_body x y model gradient cfg it st = Next s'"
  shows "not_yet_below cfg s'"
  using loop_body_Next_D[OF assms] by (simp add: not_yet_below_def)

lemma loop_body_break_loss_below:
  assumes "not_yet_below cfg st"
    and "f32_less (update_best (best_loss st) (mse_loss model x y (variables st))) (Num (min_tol cfg))"
  shows "f32_less (mse_loss model x y (variables st)) (Num (min_tol cfg))"
proof (rule update_best_below_imp[OF _ assms(2)])
  fix b
  assume "best_loss st = Some b"
  with assms(1) show "\<not> f32_less b (Num (min_tol cfg))" by (simp add: not_yet_below_def)
qed

lemma terminating_iteration_le:
  "terminating_iteration r \<le> length (history (state_of r))"
  by (cases r) (simp_all add: terminating_iteration_def)

lemma progress_lines_snoc:
  "progress_lines v (ls @ [l]) =
     progress_lines v ls @
       (if v \<noteq> 0 \<and> int (length ls) mod v = 0 then [progress_line (length ls) l] else [])"
  by (simp add: progress_lines_def nth_append cong: map_cong)

lemma progress_lines_mem:
  "progress_line it l \<in> set (progress_lines v ls) \<longleftrightarrow>
     it < length ls \<and> v \<noteq> 0 \<and> int it mod v = 0 \<and> fixed4 l = fixed4 (ls ! it)"
  by (auto simp: progress_lines_def progress_line_eq_iff)

lemma multiple_iff_mod: "(\<exists>k. (n::int) = k * v) \<longleftrightarrow> n mod v = 0"
proof -
  have "(\<exists>k. n = k * v) \<longleftrightarrow> v dvd n" by (auto simp: dvd_def mult.commute)
  then show ?thesis by (simp add: dvd_eq_mod_eq_0)
qed

subsection \<open>The variant with the check on the current loss\<close>

lemma best_is_number_check:
  assumes "best_is_number cfg vars0 st" and "0 < min_tol cfg"
    and "mse_loss model x y vars0 \<noteq> NaN"
  shows "f32_less (update_best (best_loss st) (mse_loss model x y (variables st))) (Num (min_tol cfg)) \<longleftrightarrow> f32_less (mse_loss model x y (variables st)) (Num (min_tol cfg))"
proof (cases "best_loss st")
  case None
  then show ?thesis by (simp add: update_best_def)
next
  case (Some b)
  with assms(1) obtain r where b: "b = Num r" and r: "\<not> r < min_tol cfg"
    by (cases b) (simp_all add: best_is_number_def)
  from r assms(2) have "r \<noteq> 0" by auto
  with b r Some show ?thesis
    by (cases "mse_loss model x y (variables st)") (auto simp: update_best_def)
qed

lemma best_is_number_Next:
  assumes "best_is_number cfg vars0 st" and "0 < min_tol cfg"
    and "mse_loss model x y vars0 \<noteq> NaN"
    and "loop_body x y model gradient cfg it st = Next s'"
  shows "best_is_number cfg vars0 s'"
proof -
  note c = loop_body_Next_D(1)[OF assms(4)]
  have "\<exists>r. update_best (best_loss st) (mse_loss model x y (variables st)) = Num r"
  proof (cases "best_loss st")
    case None
    with assms(1) have "variables st = vars0" by (simp add: best_is_number_def)
    with assms(3) None show ?thesis by (cases "mse_loss model x y (variables st)") (simp_all add: update_best_def)
  next
    case (Some b)
    with assms(1) obtain r where b: "b = Num r" and r: "\<not> r < min_tol cfg"
      by (cases b) (simp_all add: best_is_number_def)
    from r assms(2) have "r \<noteq> 0" by auto
    with b Some show ?thesis by (cases "mse_loss model x y (variables st)") (auto simp: update_best_def)
  qed
  then obtain r where r: "update_best (best_loss st) (mse_loss model x y (variables st)) = Num r" ..
  with c show ?thesis by (simp add: loop_body_Next_D(2)[OF assms(4)] best_is_number_def)
qed

lemma loop_body_current_loss_eq:
  assumes "best_is_number cfg vars0 st" and "0 < min_tol cfg"
    and "mse_loss model x y vars0 \<noteq> NaN"
  shows "loop_body_current_loss x y model gradient cfg it st = loop_body x y model gradient cfg it st"
  using best_is_number_check[OF assms]
  by (simp add: loop_body_current_loss_def loop_body_def Let_def)

subsection \<open>A first loss below the tolerance\<close>

lemma train_run_first_break:
  assumes "f32_less (mse_loss model x y vars0) (Num (min_tol cfg))" and "1 \<le> max_epochs cfg"
  shows "train_run x y model gradient cfg vars0 =
           Break \<lparr>variables = vars0, best_loss = Some (mse_loss model x y vars0),
                  printed = (if verbose cfg \<noteq> 0 then [terminated_notice] else []),
                  tape_calls = [],
                  history = [(mse_loss model x y vars0, mse_loss model x y vars0)]\<rparr>"
proof -
  have "0 < nat (max_epochs cfg)" using assms(2) by simp
  then have unf: "[0..<nat (max_epochs cfg)] = 0 # [Suc 0..<nat (max_epochs cfg)]"
    by (simp add: upt_conv_Cons)
  have b: "f32_less (update_best (best_loss (init_state vars0))
              (mse_loss model x y (variables (init_state vars0)))) (Num (min_tol cfg))"
    using assms(1) by (simp add: init_state_def update_best_def)
  show ?thesis
    unfolding train_run_def unf
    by (simp add: loop_body_break[OF b]) (simp add: init_state_def update_best_def)
qed

subsection \<open>The update of the variables\<close>

lemma assign_add_all_length:
  "length gs = length vs \<Longrightarrow> length (assign_add_all lr vs gs) = length vs"
  by (induction lr vs gs rule: assign_add_all.induct) simp_all

lemma assign_add_all_nth:
  "length gs = length vs \<Longrightarrow> i < length vs \<Longrightarrow>
     assign_add_all lr vs gs ! i = f32_sub (vs ! i) (f32_mul (Num lr) (gs ! i))"
proof (induction lr vs gs arbitrary: i rule: assign_add_all.induct)
  case (1 lr v vs g gs)
  then show ?case by (cases i) (simp_all add: f32_add_neg_mul)
qed simp_all

subsection \<open>Evaluating a run\<close>

text \<open>The equations that unfold a run on given inputs, and the text of its lines.\<close>

lemmas run_defs = train_run_def train_run_current_loss_def loop_body_def
  loop_body_current_loss_def mse_loss_def reduce_mean_def tensor_sub_def square_def
  update_best_def init_state_def Let_def linear_model_def linear_gradient_def
  nan_at_zero_model_def constant_gradient_def default_config_def upt_rec

lemmas text_defs = progress_line_def terminated_notice_def fixed4_def round_half_even_def
  decimal.simps digit_def

section \<open>The claims\<close>

subsection \<open>C1: what the call returns\<close>

text \<open>
  C1, as amended. Every call of \<open>train\<close> that finishes, whether by \<open>break\<close> or by
  exhausting \<open>range(max_epochs)\<close>, returns \<open>None\<close>: the function has no \<open>return\<close>
  statement. The best loss and the iteration index are locals that are dropped; what the
  caller is left with are the updated values of \<open>model.variables\<close> and the printed lines
  of the run.
\<close>

theorem train_returns_none:
  "returned (train x y model gradient cfg vars0) = None \<and>
   model_variables (train x y model gradient cfg vars0) =
     variables (state_of (train_run x y model gradient cfg vars0)) \<and>
   stdout (train x y model gradient cfg vars0) =
     printed (state_of (train_run x y model gradient cfg vars0))"
  by (simp add: train_def Let_def)

theorem train_returns_none_witness:
  "returned (train [Num 1, Num 2, Num 3] [Num 2, Num 4, Num 6] linear_model (linear_gradient [Num 1, Num 2, Num 3] [Num 2, Num 4, Num 6]) (default_config\<lparr>max_epochs := 1\<rparr>) [Num 0]) = None \<and>
   model_variables (train [Num 1, Num 2, Num 3] [Num 2, Num 4, Num 6] linear_model (linear_gradient [Num 1, Num 2, Num 3] [Num 2, Num 4, Num 6]) (default_config\<lparr>max_epochs := 1\<rparr>) [Num 0]) = [Num (14 / 75)] \<and>
   stdout (train [Num 1, Num 2, Num 3] [Num 2, Num 4, Num 6] linear_model (linear_gradient [Num 1, Num 2, Num 3] [Num 2, Num 4, Num 6]) (default_config\<lparr>max_epochs := 1\<rparr>) [Num 0]) = [''mse loss at iteration 0 is 18.6667'']"
proof -
  have run: "train_run [Num 1, Num 2, Num 3] [Num 2, Num 4, Num 6] linear_model (linear_gradient [Num 1, Num 2, Num 3] [Num 2, Num 4, Num 6]) (default_config\<lparr>max_epochs := 1\<rparr>) [Num 0] =
    Next \<lparr>variables = [Num (14 / 75)], best_loss = Some (Num (56 / 3)),
          printed = [''mse loss at iteration 0 is 18.6667''],
          tape_calls = [[Num 0]], history = [(Num (56 / 3), Num (56 / 3))]\<rparr>"
    by (simp add: run_defs text_defs)
  show ?thesis
    using train_returns_none [of "[Num 1, Num 2, Num 3]" "[Num 2, Num 4, Num 6]" linear_model "linear_gradient [Num 1, Num 2, Num 3] [Num 2, Num 4, Num 6]" "(default_config\<lparr>max_epochs := 1\<rparr>)" "[Num 0]"]
    by (simp add: run)
qed

text \<open>
  The claim as stated fails: with \<open>max_epochs = 1\<close> the loop ends with the best loss
  \<open>56/3\<close> after one iteration, and the call returns \<open>None\<close>, not that state.
\<close>

theorem train_returns_state_counterexample:
  "best_loss (state_of (train_run [Num 1, Num 2, Num 3] [Num 2, Num 4, Num 6] linear_model (linear_gradient [Num 1, Num 2, Num 3] [Num 2, Num 4, Num 6]) (default_config\<lparr>max_epochs := 1\<rparr>) [Num 0])) = Some (Num (56 / 3)) \<and>
   length (history (state_of (train_run [Num 1, Num 2, Num 3] [Num 2, Num 4, Num 6] linear_model (linear_gradient [Num 1, Num 2, Num 3] [Num 2, Num 4, Num 6]) (default_config\<lparr>max_epochs := 1\<rparr>) [Num 0]))) = 1 \<and>
   returned (train [Num 1, Num 2, Num 3] [Num 2, Num 4, Num 6] linear_model (linear_gradient [Num 1, Num 2, Num 3] [Num 2, Num 4, Num 6]) (default_config\<lparr>max_epochs := 1\<rparr>) [Num 0]) \<noteq> Some (Some (Num (56 / 3)), 1)"
proof -
  have run: "train_run [Num 1, Num 2, Num 3] [Num 2, Num 4, Num 6] linear_model (linear_gradient [Num 1, Num 2, Num 3] [Num 2, Num 4, Num 6]) (default_config\<lparr>max_epochs := 1\<rparr>) [Num 0] =
    Next \<lparr>variables = [Num (14 / 75)], best_loss = Some (Num (56 / 3)),
          printed = [''mse loss at iteration 0 is 18.6667''],
          tape_calls = [[Num 0]], history = [(Num (56 / 3), Num (56 / 3))]\<rparr>"
    by (simp add: run_defs text_defs)
  show ?thesis by (simp add: run train_def)
qed

subsection \<open>C2: the running minimum\<close>

text \<open>
  C2. The claim is that \<open>best_loss\<close> changes only when it is unset or the current loss
  is strictly smaller, so that its values never increase. The update statement tests
  \<open>not best_loss\<close>, which is also true of a best loss of exactly \<open>0.0\<close>: the next
  iteration then overwrites the minimum with whatever the current loss is. With
  \<open>min_tol = 0\<close> the loop does not stop on a loss of \<open>0\<close>; here the loss is \<open>0\<close> in
  iteration 0 and \<open>1\<close> in iteration 1, and \<open>best_loss\<close> goes from \<open>0\<close> up to \<open>1\<close>.
\<close>

theorem best_loss_increases_after_zero:
  "map snd (history (state_of (train_run [Num 1] [Num 0] linear_model (\<lambda>vars. [Num (- 100)])
      (default_config\<lparr>max_epochs := 2, min_tol := 0\<rparr>) [Num 0]))) = [Num 0, Num 1]"
  by (simp add: run_defs text_defs)

subsection \<open>C3: a tolerance that is never reached\<close>

text \<open>
  C3. With \<open>min_tol \<le> 0\<close> the loop is never left by \<open>break\<close>, because the loss is a
  mean of squares and so never negative (it is a non-negative number or NaN, and neither
  is below \<open>min_tol\<close>), and it runs exactly \<open>max_epochs\<close> iterations.
\<close>

theorem train_runs_all_epochs:
  assumes "min_tol cfg \<le> 0" and "0 \<le> max_epochs cfg"
  shows "\<not> broke (train_run x y model gradient cfg vars0) \<and>
         int (length (history (state_of (train_run x y model gradient cfg vars0)))) = max_epochs cfg"
proof -
  let ?I = "\<lambda>k s. length (history s) = k \<and> not_yet_below cfg s"
  have "case train_run x y model gradient cfg vars0 of
           Break s \<Rightarrow> False | Next s \<Rightarrow> ?I (nat (max_epochs cfg)) s"
  proof (rule train_run_rule[where I = ?I and Q = "\<lambda>s. False"])
    show "?I 0 (init_state vars0)" by (simp add: init_state_def not_yet_below_def)
  next
    fix it s s'
    assume "?I it s" and n: "loop_body x y model gradient cfg it s = Next s'"
    then show "?I (Suc it) s'"
      using loop_body_Next_D(2)[OF n] not_yet_below_Next[OF n] by simp
  next
    fix it s s'
    assume i: "?I it s" and b: "loop_body x y model gradient cfg it s = Break s'"
    have "f32_less (mse_loss model x y (variables s)) (Num (min_tol cfg))"
      using loop_body_break_loss_below[of cfg s model x y] loop_body_Break_D(1)[OF b] i by simp
    with mse_loss_not_below[OF assms(1), of model x y "variables s"] show False by simp
  qed
  with assms(2) show ?thesis
    by (cases "train_run x y model gradient cfg vars0") simp_all
qed

theorem train_runs_all_epochs_witness:
  "min_tol (default_config\<lparr>max_epochs := 3, min_tol := 0\<rparr>) \<le> 0 \<and>
   0 \<le> max_epochs (default_config\<lparr>max_epochs := 3, min_tol := 0\<rparr>) \<and>
   \<not> broke (train_run [Num 1, Num 2, Num 3] [Num 2, Num 4, Num 6] linear_model (linear_gradient [Num 1, Num 2, Num 3] [Num 2, Num 4, Num 6]) (default_config\<lparr>max_epochs := 3, min_tol := 0\<rparr>) [Num 2]) \<and>
   int (length (history (state_of (train_run [Num 1, Num 2, Num 3] [Num 2, Num 4, Num 6] linear_model (linear_gradient [Num 1, Num 2, Num 3] [Num 2, Num 4, Num 6]) (default_config\<lparr>max_epochs := 3, min_tol := 0\<rparr>) [Num 2])))) = 3"
proof -
  have h1: "min_tol (default_config\<lparr>max_epochs := 3, min_tol := 0\<rparr>) \<le> 0" by simp
  have h2: "0 \<le> max_epochs (default_config\<lparr>max_epochs := 3, min_tol := 0\<rparr>)" by simp
  show ?thesis
    using h1 h2 train_runs_all_epochs [OF h1 h2, of "[Num 1, Num 2, Num 3]" "[Num 2, Num 4, Num 6]" linear_model "linear_gradient [Num 1, Num 2, Num 3] [Num 2, Num 4, Num 6]" "[Num 2]"]
    by simp
qed

subsection \<open>C4: a first loss already below the tolerance\<close>

text \<open>
  C4. When the loss computed in iteration 0 is below \<open>min_tol\<close>, the loop is left in
  that iteration, after exactly one iteration, and at most one progress line has been
  printed. (None is: the \<open>break\<close> comes before the logging statement, so the output is
  the termination notice alone, when \<open>verbose\<close> is non-zero.)
\<close>

theorem first_loss_below_tolerance:
  assumes "f32_less (mse_loss model x y vars0) (Num (min_tol cfg))" and "1 \<le> max_epochs cfg"
  shows "broke (train_run x y model gradient cfg vars0) \<and>
         length (history (state_of (train_run x y model gradient cfg vars0))) = 1 \<and>
         length (filter is_progress (printed (state_of (train_run x y model gradient cfg vars0)))) \<le> 1 \<and>
         printed (state_of (train_run x y model gradient cfg vars0)) =
           (if verbose cfg \<noteq> 0 then [terminated_notice] else [])"
  by (simp add: train_run_first_break[OF assms] is_progress_terminated_notice)

theorem first_loss_below_tolerance_witness:
  "f32_less (mse_loss linear_model [Num 1, Num 2, Num 3] [Num 2, Num 4, Num 6] [Num 2])
     (Num (min_tol default_config)) \<and>
   1 \<le> max_epochs default_config \<and>
   broke (train_run [Num 1, Num 2, Num 3] [Num 2, Num 4, Num 6] linear_model (linear_gradient [Num 1, Num 2, Num 3] [Num 2, Num 4, Num 6]) default_config [Num 2]) \<and>
   length (history (state_of (train_run [Num 1, Num 2, Num 3] [Num 2, Num 4, Num 6] linear_model (linear_gradient [Num 1, Num 2, Num 3] [Num 2, Num 4, Num 6]) default_config [Num 2]))) = 1 \<and>
   length (filter is_progress (printed (state_of (train_run [Num 1, Num 2, Num 3] [Num 2, Num 4, Num 6] linear_model (linear_gradient [Num 1, Num 2, Num 3] [Num 2, Num 4, Num 6]) default_config [Num 2])))) \<le> 1 \<and>
   printed (state_of (train_run [Num 1, Num 2, Num 3] [Num 2, Num 4, Num 6] linear_model (linear_gradient [Num 1, Num 2, Num 3] [Num 2, Num 4, Num 6]) default_config [Num 2])) =
     [''terminated as loss less than minimal tolerance'']"
proof -
  have h1: "f32_less (mse_loss linear_model [Num 1, Num 2, Num 3] [Num 2, Num 4, Num 6] [Num 2])
     (Num (min_tol default_config))"
    by (simp add: run_defs)
  have h2: "1 \<le> max_epochs default_config" by (simp add: default_config_def)
  have v: "verbose default_config \<noteq> 0" by (simp add: default_config_def)
  show ?thesis
    using h1 h2 v first_loss_below_tolerance [OF h1 h2,
        of "linear_gradient [Num 1, Num 2, Num 3] [Num 2, Num 4, Num 6]"]
    by (simp add: terminated_notice_def)
qed

subsection \<open>C5: the termination check\<close>

text \<open>
  C5. In every iteration, whatever its index and the state it starts from, the loop is
  left exactly when the updated \<open>best_loss\<close> (not the loss of the iteration) is below
  \<open>min_tol\<close>. When that happens nothing of the iteration has been logged: the output
  grows by the termination notice if \<open>verbose\<close> is non-zero and by nothing otherwise,
  and the remaining iterations are not run.
\<close>

theorem check_on_best_loss_before_logging:
  "(broke (loop_body x y model gradient cfg it st) \<longleftrightarrow>
      f32_less (update_best (best_loss st) (mse_loss model x y (variables st))) (Num (min_tol cfg)))
   \<and> (broke (loop_body x y model gradient cfg it st) \<longrightarrow>
        printed (state_of (loop_body x y model gradient cfg it st)) =
          printed st @ (if verbose cfg \<noteq> 0 then [terminated_notice] else [])
        \<and> for_range (loop_body x y model gradient cfg) (it # its) st =
            loop_body x y model gradient cfg it st)"
proof (cases "f32_less (update_best (best_loss st) (mse_loss model x y (variables st))) (Num (min_tol cfg))")
  case True
  show ?thesis using True by (simp add: loop_body_break[OF True])
next
  case False
  show ?thesis using False by (simp add: loop_body_next[OF False])
qed

theorem check_on_best_loss_before_logging_witness:
  "\<not> f32_less (mse_loss linear_model [Num 1] [Num 1] [Num 0]) (Num (min_tol default_config)) \<and>
   broke (loop_body [Num 1] [Num 1] linear_model (linear_gradient [Num 1] [Num 1]) default_config 5
      \<lparr>variables = [Num 0], best_loss = Some (Num (1 / 2000)), printed = [], tape_calls = [], history = []\<rparr>) \<and>
   printed (state_of (loop_body [Num 1] [Num 1] linear_model (linear_gradient [Num 1] [Num 1]) default_config 5
      \<lparr>variables = [Num 0], best_loss = Some (Num (1 / 2000)), printed = [], tape_calls = [], history = []\<rparr>))
     = [''terminated as loss less than minimal tolerance''] \<and>
   for_range (loop_body [Num 1] [Num 1] linear_model (linear_gradient [Num 1] [Num 1]) default_config) [5, 6]
      \<lparr>variables = [Num 0], best_loss = Some (Num (1 / 2000)), printed = [], tape_calls = [], history = []\<rparr>
     = loop_body [Num 1] [Num 1] linear_model (linear_gradient [Num 1] [Num 1]) default_config 5
      \<lparr>variables = [Num 0], best_loss = Some (Num (1 / 2000)), printed = [], tape_calls = [], history = []\<rparr>"
proof -
  have l: "mse_loss linear_model [Num 1] [Num 1] [Num 0] = Num 1" by (simp add: run_defs)
  have b: "f32_less (update_best (best_loss \<lparr>variables = [Num 0], best_loss = Some (Num (1 / 2000)), printed = [], tape_calls = [], history = []\<rparr>)
            (mse_loss linear_model [Num 1] [Num 1] (variables \<lparr>variables = [Num 0], best_loss = Some (Num (1 / 2000)), printed = [], tape_calls = [], history = []\<rparr>))) (Num (min_tol default_config))"
    by (simp add: l update_best_def default_config_def)
  have v: "verbose default_config \<noteq> 0" by (simp add: default_config_def)
  have t: "\<not> (1::real) < min_tol default_config" by (simp add: default_config_def)
  show ?thesis
    using b v t check_on_best_loss_before_logging [of "[Num 1]" "[Num 1]" linear_model
        "linear_gradient [Num 1] [Num 1]" default_config 5
        "\<lparr>variables = [Num 0], best_loss = Some (Num (1 / 2000)), printed = [], tape_calls = [], history = []\<rparr>"
        "[6]"]
    by (simp add: l terminated_notice_def)
qed

subsection \<open>C6: the progress lines\<close>

text \<open>
  C6. Let \<open>T\<close> be the terminating iteration of a run. The output of the run is, in order,
  one progress line for each iteration \<open>it < T\<close> with \<open>verbose \<noteq> 0\<close> and
  \<open>it mod verbose = 0\<close>, followed by the termination notice when the loop was left by
  \<open>break\<close> and \<open>verbose\<close> is non-zero. The progress line of iteration \<open>it\<close> is the text
  \<open>mse loss at iteration\<close>, \<open>it\<close> in decimal, \<open>is\<close>, and the loss computed in
  iteration \<open>it\<close> to four decimal places: its sign, its integer part, a point and the
  four decimals of the multiple of \<open>0.0001\<close> nearest to it. So a progress line for
  iteration \<open>it\<close> showing a loss \<open>l\<close> is in the output exactly when \<open>it < T\<close>, \<open>it\<close> is
  a multiple of a non-zero \<open>verbose\<close> and \<open>l\<close> has the four-decimal text of the loss of
  iteration \<open>it\<close>; and with \<open>verbose = 0\<close> nothing is printed at all.
\<close>

theorem train_log_lines:
  "printed (state_of (train_run x y model gradient cfg vars0)) =
     progress_lines (verbose cfg)
       (take (terminating_iteration (train_run x y model gradient cfg vars0)) (map fst (history (state_of (train_run x y model gradient cfg vars0))))) @
     (if broke (train_run x y model gradient cfg vars0) \<and> verbose cfg \<noteq> 0 then [terminated_notice] else [])
   \<and> (\<forall>it l. progress_line it l \<in> set (printed (state_of (train_run x y model gradient cfg vars0))) \<longleftrightarrow>
         it < terminating_iteration (train_run x y model gradient cfg vars0) \<and>
         verbose cfg \<noteq> 0 \<and> (\<exists>k. int it = k * verbose cfg) \<and>
         fixed4 l = fixed4 (fst (history (state_of (train_run x y model gradient cfg vars0)) ! it)))
   \<and> (\<forall>it r. \<exists>q. \<bar>real q / 10000 - \<bar>r\<bar>\<bar> \<le> 1 / 20000 \<and>
         progress_line it (Num r) =
           ''mse loss at iteration '' @ decimal it @ '' is '' @
           (if r < 0 then ''-'' else []) @ decimal (q div 10000) @ ''.'' @
           [digit (q div 1000 mod 10), digit (q div 100 mod 10),
            digit (q div 10 mod 10), digit (q mod 10)])
   \<and> (verbose cfg = 0 \<longrightarrow> printed (state_of (train_run x y model gradient cfg vars0)) = [])"
proof -
  let ?v = "verbose cfg"
  let ?r = "train_run x y model gradient cfg vars0"
  let ?I = "\<lambda>k s. printed s = progress_lines ?v (map fst (history s)) \<and> length (history s) = k"
  let ?Q = "\<lambda>s. history s \<noteq> [] \<and>
     printed s = progress_lines ?v (butlast (map fst (history s))) @
       (if ?v \<noteq> 0 then [terminated_notice] else [])"
  have run: "case ?r of Break s \<Rightarrow> ?Q s | Next s \<Rightarrow> ?I (nat (max_epochs cfg)) s"
  proof (rule train_run_rule[where I = ?I and Q = ?Q])
    show "?I 0 (init_state vars0)" by (simp add: init_state_def progress_lines_def)
  next
    fix it s s'
    assume i: "?I it s" and n: "loop_body x y model gradient cfg it s = Next s'"
    show "?I (Suc it) s'"
      using i by (simp add: loop_body_Next_D(2)[OF n] progress_lines_snoc)
  next
    fix it s s'
    assume i: "?I it s" and b: "loop_body x y model gradient cfg it s = Break s'"
    show "?Q s'"
      using i by (simp add: loop_body_Break_D(2)[OF b])
  qed
  have main: "printed (state_of ?r) =
     progress_lines ?v (take (terminating_iteration ?r) (map fst (history (state_of ?r)))) @
     (if broke ?r \<and> ?v \<noteq> 0 then [terminated_notice] else [])"
  proof (cases ?r)
    case (Break s)
    with run have "?Q s" by simp
    then show ?thesis by (simp add: Break terminating_iteration_def butlast_conv_take)
  next
    case (Next s)
    with run have "?I (nat (max_epochs cfg)) s" by simp
    then show ?thesis by (simp add: Next terminating_iteration_def)
  qed
  have len: "length (take (terminating_iteration ?r) (map fst (history (state_of ?r)))) =
      terminating_iteration ?r"
    using terminating_iteration_le[of ?r] by simp
  have mem: "progress_line it l \<in> set (printed (state_of ?r)) \<longleftrightarrow>
         it < terminating_iteration ?r \<and> ?v \<noteq> 0 \<and> (\<exists>k. int it = k * ?v) \<and>
         fixed4 l = fixed4 (fst (history (state_of ?r) ! it))" for it l
  proof -
    have "progress_line it l \<in> set (printed (state_of ?r)) \<longleftrightarrow>
        progress_line it l \<in> set (progress_lines ?v
          (take (terminating_iteration ?r) (map fst (history (state_of ?r)))))"
      by (subst main) (simp add: progress_line_not_notice)
    also have "\<dots> \<longleftrightarrow> it < terminating_iteration ?r \<and> ?v \<noteq> 0 \<and> int it mod ?v = 0 \<and>
         fixed4 l = fixed4 (take (terminating_iteration ?r) (map fst (history (state_of ?r))) ! it)"
      by (simp only: progress_lines_mem len)
    also have "\<dots> \<longleftrightarrow> it < terminating_iteration ?r \<and> ?v \<noteq> 0 \<and> (\<exists>k. int it = k * ?v) \<and>
         fixed4 l = fixed4 (fst (history (state_of ?r) ! it))"
      using terminating_iteration_le[of ?r] by (auto simp: multiple_iff_mod)
    finally show ?thesis .
  qed
  have fmt: "\<exists>q. \<bar>real q / 10000 - \<bar>r\<bar>\<bar> \<le> 1 / 20000 \<and>
         progress_line it (Num r) =
           ''mse loss at iteration '' @ decimal it @ '' is '' @
           (if r < 0 then ''-'' else []) @ decimal (q div 10000) @ ''.'' @
           [digit (q div 1000 mod 10), digit (q div 100 mod 10),
            digit (q div 10 mod 10), digit (q mod 10)]" for it r
  proof -
    from fixed4_four_decimals[of r] obtain q where
      "\<bar>real q / 10000 - \<bar>r\<bar>\<bar> \<le> 1 / 20000" and
      "fixed4 (Num r) = (if r < 0 then ''-'' else []) @ decimal (q div 10000) @ ''.'' @
       [digit (q div 1000 mod 10), digit (q div 100 mod 10),
        digit (q div 10 mod 10), digit (q mod 10)]"
      by blast
    then show ?thesis by (intro exI[of _ q]) (simp add: progress_line_def)
  qed
  have "progress_lines 0 ls = []" for ls by (simp add: progress_lines_def)
  with main have zero: "?v = 0 \<longrightarrow> printed (state_of ?r) = []" by simp
  show ?thesis using main mem fmt zero by blast
qed

theorem train_log_lines_witness:
  "terminating_iteration (train_run [Num 1, Num 2, Num 3] [Num 2, Num 4, Num 6] linear_model (linear_gradient [Num 1, Num 2, Num 3] [Num 2, Num 4, Num 6]) (default_config\<lparr>learning_rate := 1 / 10, max_epochs := 5, verbose := 1\<rparr>) [Num 0]) = 2 \<and>
   printed (state_of (train_run [Num 1, Num 2, Num 3] [Num 2, Num 4, Num 6] linear_model (linear_gradient [Num 1, Num 2, Num 3] [Num 2, Num 4, Num 6]) (default_config\<lparr>learning_rate := 1 / 10, max_epochs := 5, verbose := 1\<rparr>) [Num 0])) =
     [''mse loss at iteration 0 is 18.6667'',
      ''mse loss at iteration 1 is 0.0830'',
      ''terminated as loss less than minimal tolerance''] \<and>
   progress_line 1 (Num (56 / 675)) \<in> set (printed (state_of (train_run [Num 1, Num 2, Num 3] [Num 2, Num 4, Num 6] linear_model (linear_gradient [Num 1, Num 2, Num 3] [Num 2, Num 4, Num 6]) (default_config\<lparr>learning_rate := 1 / 10, max_epochs := 5, verbose := 1\<rparr>) [Num 0]))) \<and>
   verbose (default_config\<lparr>learning_rate := 1 / 10, max_epochs := 5, verbose := 0\<rparr>) = 0 \<and>
   printed (state_of (train_run [Num 1, Num 2, Num 3] [Num 2, Num 4, Num 6] linear_model (linear_gradient [Num 1, Num 2, Num 3] [Num 2, Num 4, Num 6]) (default_config\<lparr>learning_rate := 1 / 10, max_epochs := 5, verbose := 0\<rparr>) [Num 0])) = []"
proof -
  have run: "train_run [Num 1, Num 2, Num 3] [Num 2, Num 4, Num 6] linear_model (linear_gradient [Num 1, Num 2, Num 3] [Num 2, Num 4, Num 6]) (default_config\<lparr>learning_rate := 1 / 10, max_epochs := 5, verbose := 1\<rparr>) [Num 0] =
    Break \<lparr>variables = [Num (448 / 225)], best_loss = Some (Num (56 / 151875)),
           printed = [''mse loss at iteration 0 is 18.6667'',
                      ''mse loss at iteration 1 is 0.0830'',
                      ''terminated as loss less than minimal tolerance''],
           tape_calls = [[Num 0], [Num (28 / 15)]],
           history = [(Num (56 / 3), Num (56 / 3)), (Num (56 / 675), Num (56 / 675)),
                      (Num (56 / 151875), Num (56 / 151875))]\<rparr>"
    by (simp add: run_defs text_defs)
  have v: "verbose (default_config\<lparr>learning_rate := 1 / 10, max_epochs := 5, verbose := 0\<rparr>) = 0" by simp
  have t: "terminating_iteration (train_run [Num 1, Num 2, Num 3] [Num 2, Num 4, Num 6] linear_model (linear_gradient [Num 1, Num 2, Num 3] [Num 2, Num 4, Num 6]) (default_config\<lparr>learning_rate := 1 / 10, max_epochs := 5, verbose := 1\<rparr>) [Num 0]) = 2"
    by (simp add: run terminating_iteration_def)
  have mem: "progress_line 1 (Num (56 / 675)) \<in> set (printed (state_of (train_run [Num 1, Num 2, Num 3] [Num 2, Num 4, Num 6] linear_model (linear_gradient [Num 1, Num 2, Num 3] [Num 2, Num 4, Num 6]) (default_config\<lparr>learning_rate := 1 / 10, max_epochs := 5, verbose := 1\<rparr>) [Num 0]))) \<longleftrightarrow>
      1 < terminating_iteration (train_run [Num 1, Num 2, Num 3] [Num 2, Num 4, Num 6] linear_model (linear_gradient [Num 1, Num 2, Num 3] [Num 2, Num 4, Num 6]) (default_config\<lparr>learning_rate := 1 / 10, max_epochs := 5, verbose := 1\<rparr>) [Num 0]) \<and>
      verbose (default_config\<lparr>learning_rate := 1 / 10, max_epochs := 5, verbose := 1\<rparr>) \<noteq> 0 \<and> (\<exists>k. int 1 = k * verbose (default_config\<lparr>learning_rate := 1 / 10, max_epochs := 5, verbose := 1\<rparr>)) \<and>
      fixed4 (Num (56 / 675)) = fixed4 (fst (history (state_of (train_run [Num 1, Num 2, Num 3] [Num 2, Num 4, Num 6] linear_model (linear_gradient [Num 1, Num 2, Num 3] [Num 2, Num 4, Num 6]) (default_config\<lparr>learning_rate := 1 / 10, max_epochs := 5, verbose := 1\<rparr>) [Num 0])) ! 1))"
    using train_log_lines [of "[Num 1, Num 2, Num 3]" "[Num 2, Num 4, Num 6]" linear_model "linear_gradient [Num 1, Num 2, Num 3] [Num 2, Num 4, Num 6]" "(default_config\<lparr>learning_rate := 1 / 10, max_epochs := 5, verbose := 1\<rparr>)" "[Num 0]"]
    by blast
  have k: "\<exists>k. int 1 = k * verbose (default_config\<lparr>learning_rate := 1 / 10, max_epochs := 5, verbose := 1\<rparr>)" by (intro exI[of _ 1]) simp
  have f: "fst (history (state_of (train_run [Num 1, Num 2, Num 3] [Num 2, Num 4, Num 6] linear_model (linear_gradient [Num 1, Num 2, Num 3] [Num 2, Num 4, Num 6]) (default_config\<lparr>learning_rate := 1 / 10, max_epochs := 5, verbose := 1\<rparr>) [Num 0])) ! 1) = Num (56 / 675)"
    by (simp add: run)
  have a: "progress_line 1 (Num (56 / 675)) \<in> set (printed (state_of (train_run [Num 1, Num 2, Num 3] [Num 2, Num 4, Num 6] linear_model (linear_gradient [Num 1, Num 2, Num 3] [Num 2, Num 4, Num 6]) (default_config\<lparr>learning_rate := 1 / 10, max_epochs := 5, verbose := 1\<rparr>) [Num 0])))"
    using mem t k f by simp
  have b: "printed (state_of (train_run [Num 1, Num 2, Num 3] [Num 2, Num 4, Num 6] linear_model (linear_gradient [Num 1, Num 2, Num 3] [Num 2, Num 4, Num 6]) (default_config\<lparr>learning_rate := 1 / 10, max_epochs := 5, verbose := 0\<rparr>) [Num 0])) = []"
    using v train_log_lines [of "[Num 1, Num 2, Num 3]" "[Num 2, Num 4, Num 6]" linear_model "linear_gradient [Num 1, Num 2, Num 3] [Num 2, Num 4, Num 6]" "(default_config\<lparr>learning_rate := 1 / 10, max_epochs := 5, verbose := 0\<rparr>)" "[Num 0]"]
    by blast
  have p: "printed (state_of (train_run [Num 1, Num 2, Num 3] [Num 2, Num 4, Num 6] linear_model (linear_gradient [Num 1, Num 2, Num 3] [Num 2, Num 4, Num 6]) (default_config\<lparr>learning_rate := 1 / 10, max_epochs := 5, verbose := 1\<rparr>) [Num 0])) =
     [''mse loss at iteration 0 is 18.6667'',
      ''mse loss at iteration 1 is 0.0830'',
      ''terminated as loss less than minimal tolerance'']"
    by (simp add: run)
  show ?thesis using a b t v p by blast
qed

subsection \<open>C7: the gradient descent step\<close>

text \<open>
  C7. In every iteration that does not leave the loop, when the tape returns one gradient
  per variable, each variable \<open>i\<close> gets the value
  \<open>variable i - learning_rate * gradient i\<close>, and the number of variables is unchanged.
  In particular, with \<open>learning_rate = 0.01\<close>, a single variable \<open>1.0\<close> and the gradient
  \<open>2.0\<close> the new value is \<open>0.98\<close> (without rounding).
\<close>

theorem gradient_descent_update:
  assumes "loop_body x y model gradient cfg it st = Next s'"
    and "length (gradient (variables st)) = length (variables st)"
  shows "length (variables s') = length (variables st) \<and>
         (\<forall>i < length (variables st).
            variables s' ! i =
              f32_sub (variables st ! i)
                (f32_mul (Num (learning_rate cfg)) (gradient (variables st) ! i))) \<and>
         assign_add_all (1 / 100) [Num 1] [Num 2] = [Num (98 / 100)]"
  using assms(2)
  by (simp add: loop_body_Next_D(2)[OF assms(1)] assign_add_all_length assign_add_all_nth)

theorem gradient_descent_update_witness:
  "loop_body [Num 1] [Num 0] linear_model (linear_gradient [Num 1] [Num 0]) default_config 0 (init_state [Num 1]) =
     Next \<lparr>variables = [Num (49 / 50)], best_loss = Some (Num 1),
           printed = [''mse loss at iteration 0 is 1.0000''], tape_calls = [[Num 1]],
           history = [(Num 1, Num 1)]\<rparr> \<and>
   linear_gradient [Num 1] [Num 0] (variables (init_state [Num 1])) = [Num 2] \<and>
   learning_rate default_config = 1 / 100 \<and>
   variables \<lparr>variables = [Num (49 / 50)], best_loss = Some (Num 1),
           printed = [''mse loss at iteration 0 is 1.0000''], tape_calls = [[Num 1]],
           history = [(Num 1, Num 1)]\<rparr> ! 0 =
     f32_sub (variables (init_state [Num 1]) ! 0)
       (f32_mul (Num (learning_rate default_config))
          (linear_gradient [Num 1] [Num 0] (variables (init_state [Num 1])) ! 0)) \<and>
   variables \<lparr>variables = [Num (49 / 50)], best_loss = Some (Num 1),
           printed = [''mse loss at iteration 0 is 1.0000''], tape_calls = [[Num 1]],
           history = [(Num 1, Num 1)]\<rparr> = [Num (98 / 100)]"
proof -
  have h: "loop_body [Num 1] [Num 0] linear_model (linear_gradient [Num 1] [Num 0]) default_config 0 (init_state [Num 1]) =
     Next \<lparr>variables = [Num (49 / 50)], best_loss = Some (Num 1),
           printed = [''mse loss at iteration 0 is 1.0000''], tape_calls = [[Num 1]],
           history = [(Num 1, Num 1)]\<rparr>"
    by (simp add: run_defs text_defs)
  have g: "linear_gradient [Num 1] [Num 0] (variables (init_state [Num 1])) = [Num 2]"
    by (simp add: run_defs)
  have l: "length (linear_gradient [Num 1] [Num 0] (variables (init_state [Num 1]))) =
      length (variables (init_state [Num 1]))"
    by (simp add: run_defs)
  have r: "learning_rate default_config = 1 / 100" by (simp add: default_config_def)
  show ?thesis
    using h g r gradient_descent_update [OF h l]
    by (simp add: init_state_def)
qed

subsection \<open>C8: one snapshot for all gradients\<close>

text \<open>
  C8. In every iteration that does not leave the loop the tape is asked once, for the
  values the variables had before any update of the iteration, and every new value is
  computed from that one list of gradients. The step depends on the gradients only
  through their value at that snapshot: a tape that agrees with this one there gives the
  same step.
\<close>

theorem gradients_from_one_snapshot:
  assumes "loop_body x y model gradient cfg it st = Next s'"
  shows "tape_calls s' = tape_calls st @ [variables st] \<and>
         variables s' = assign_add_all (learning_rate cfg) (variables st) (gradient (variables st)) \<and>
         (\<forall>g'. g' (variables st) = gradient (variables st) \<longrightarrow>
                loop_body x y model g' cfg it st = Next s')"
proof -
  note c = loop_body_Next_D(1)[OF assms]
  have "loop_body x y model g' cfg it st = Next s'" if "g' (variables st) = gradient (variables st)" for g'
    using that by (simp add: loop_body_next[OF c] loop_body_Next_D(2)[OF assms])
  then show ?thesis by (simp add: loop_body_Next_D(2)[OF assms])
qed

theorem gradients_from_one_snapshot_witness:
  "loop_body [Num 1] [Num 0] linear_model (linear_gradient [Num 1] [Num 0]) default_config 0 (init_state [Num 1]) =
     Next \<lparr>variables = [Num (49 / 50)], best_loss = Some (Num 1),
           printed = [''mse loss at iteration 0 is 1.0000''], tape_calls = [[Num 1]],
           history = [(Num 1, Num 1)]\<rparr> \<and>
   tape_calls \<lparr>variables = [Num (49 / 50)], best_loss = Some (Num 1),
           printed = [''mse loss at iteration 0 is 1.0000''], tape_calls = [[Num 1]],
           history = [(Num 1, Num 1)]\<rparr> = tape_calls (init_state [Num 1]) @ [variables (init_state [Num 1])] \<and>
   constant_gradient (Num 2) (variables (init_state [Num 1])) =
     linear_gradient [Num 1] [Num 0] (variables (init_state [Num 1])) \<and>
   loop_body [Num 1] [Num 0] linear_model (constant_gradient (Num 2)) default_config 0
     (init_state [Num 1]) = Next \<lparr>variables = [Num (49 / 50)], best_loss = Some (Num 1),
           printed = [''mse loss at iteration 0 is 1.0000''], tape_calls = [[Num 1]],
           history = [(Num 1, Num 1)]\<rparr>"
proof -
  have h: "loop_body [Num 1] [Num 0] linear_model (linear_gradient [Num 1] [Num 0]) default_config 0 (init_state [Num 1]) =
     Next \<lparr>variables = [Num (49 / 50)], best_loss = Some (Num 1),
           printed = [''mse loss at iteration 0 is 1.0000''], tape_calls = [[Num 1]],
           history = [(Num 1, Num 1)]\<rparr>"
    by (simp add: run_defs text_defs)
  have g: "constant_gradient (Num 2) (variables (init_state [Num 1])) =
     linear_gradient [Num 1] [Num 0] (variables (init_state [Num 1]))"
    by (simp add: run_defs)
  show ?thesis
    using h g gradients_from_one_snapshot [OF h]
    by (simp add: init_state_def)
qed

subsection \<open>C9: nothing is updated when the loop is left\<close>

text \<open>
  C9. The iteration that leaves the loop asks the tape for no gradient and changes no
  variable; its outcome is the same whatever the tape would have returned. In particular,
  when the loss of iteration 0 is already below a positive \<open>min_tol\<close>, \<open>train\<close> returns
  with every variable at its initial value and without a single gradient computed.
\<close>

theorem early_termination_frame:
  "(loop_body x y model gradient cfg it st = Break s' \<longrightarrow>
      variables s' = variables st \<and> tape_calls s' = tape_calls st \<and>
      (\<forall>g'. loop_body x y model g' cfg it st = Break s'))
   \<and> (0 < min_tol cfg \<and> f32_less (mse_loss model x y vars0) (Num (min_tol cfg)) \<longrightarrow>
        model_variables (train x y model gradient cfg vars0) = vars0 \<and>
        tape_calls (state_of (train_run x y model gradient cfg vars0)) = [])"
proof -
  have a: "variables s' = variables st \<and> tape_calls s' = tape_calls st \<and>
      (\<forall>g'. loop_body x y model g' cfg it st = Break s')"
    if b: "loop_body x y model gradient cfg it st = Break s'"
  proof -
    note c = loop_body_Break_D(1)[OF b]
    show ?thesis by (simp add: loop_body_break[OF c] loop_body_Break_D(2)[OF b])
  qed
  have r: "variables (state_of (train_run x y model gradient cfg vars0)) = vars0 \<and>
        tape_calls (state_of (train_run x y model gradient cfg vars0)) = []"
    if l: "f32_less (mse_loss model x y vars0) (Num (min_tol cfg))"
  proof (cases "1 \<le> max_epochs cfg")
    case True
    show ?thesis by (simp add: train_run_first_break[OF l True])
  next
    case False
    then have "nat (max_epochs cfg) = 0" by simp
    then show ?thesis by (simp add: train_run_def init_state_def)
  qed
  show ?thesis using a r by (simp add: train_def Let_def)
qed

theorem early_termination_frame_witness:
  "loop_body [Num 1, Num 2, Num 3] [Num 2, Num 4, Num 6] linear_model (linear_gradient [Num 1, Num 2, Num 3] [Num 2, Num 4, Num 6]) default_config 0 (init_state [Num 2]) = Break \<lparr>variables = [Num 2], best_loss = Some (Num 0),
            printed = [''terminated as loss less than minimal tolerance''], tape_calls = [],
            history = [(Num 0, Num 0)]\<rparr> \<and>
   variables \<lparr>variables = [Num 2], best_loss = Some (Num 0),
            printed = [''terminated as loss less than minimal tolerance''], tape_calls = [],
            history = [(Num 0, Num 0)]\<rparr> = variables (init_state [Num 2]) \<and>
   tape_calls \<lparr>variables = [Num 2], best_loss = Some (Num 0),
            printed = [''terminated as loss less than minimal tolerance''], tape_calls = [],
            history = [(Num 0, Num 0)]\<rparr> = tape_calls (init_state [Num 2]) \<and>
   loop_body [Num 1, Num 2, Num 3] [Num 2, Num 4, Num 6] linear_model (constant_gradient (Num 1))
     default_config 0 (init_state [Num 2]) = Break \<lparr>variables = [Num 2], best_loss = Some (Num 0),
            printed = [''terminated as loss less than minimal tolerance''], tape_calls = [],
            history = [(Num 0, Num 0)]\<rparr> \<and>
   0 < min_tol default_config \<and>
   f32_less (mse_loss linear_model [Num 1, Num 2, Num 3] [Num 2, Num 4, Num 6] [Num 2])
     (Num (min_tol default_config)) \<and>
   model_variables (train [Num 1, Num 2, Num 3] [Num 2, Num 4, Num 6] linear_model (linear_gradient [Num 1, Num 2, Num 3] [Num 2, Num 4, Num 6]) default_config [Num 2]) = [Num 2] \<and>
   tape_calls (state_of (train_run [Num 1, Num 2, Num 3] [Num 2, Num 4, Num 6] linear_model (linear_gradient [Num 1, Num 2, Num 3] [Num 2, Num 4, Num 6]) default_config [Num 2])) = []"
proof -
  have h: "loop_body [Num 1, Num 2, Num 3] [Num 2, Num 4, Num 6] linear_model (linear_gradient [Num 1, Num 2, Num 3] [Num 2, Num 4, Num 6]) default_config 0 (init_state [Num 2]) = Break \<lparr>variables = [Num 2], best_loss = Some (Num 0),
            printed = [''terminated as loss less than minimal tolerance''], tape_calls = [],
            history = [(Num 0, Num 0)]\<rparr>"
    by (simp add: run_defs text_defs)
  have p: "0 < min_tol default_config" by (simp add: default_config_def)
  have l: "f32_less (mse_loss linear_model [Num 1, Num 2, Num 3] [Num 2, Num 4, Num 6] [Num 2])
     (Num (min_tol default_config))"
    by (simp add: run_defs)
  show ?thesis
    using h p l early_termination_frame [of "[Num 1, Num 2, Num 3]" "[Num 2, Num 4, Num 6]" linear_model "linear_gradient [Num 1, Num 2, Num 3] [Num 2, Num 4, Num 6]" default_config 0 "init_state [Num 2]" "\<lparr>variables = [Num 2], best_loss = Some (Num 0),
            printed = [''terminated as loss less than minimal tolerance''], tape_calls = [],
            history = [(Num 0, Num 0)]\<rparr>" "[Num 2]"]
    by (simp add: init_state_def)
qed

subsection \<open>C10: the check on the current loss\<close>

text \<open>
  C10, as amended. For \<open>min_tol > 0\<close> and a first loss (the loss of iteration 0) that is
  not NaN, the loop whose termination check tests the loss of the iteration,
  \<open>loss < min_tol\<close>, runs exactly as \<open>train\<close> does: the two runs end in the same way (by
  \<open>break\<close> or by exhaustion) in the same state, hence at the same iteration, with the
  same printed lines and the same values of the variables. The reason is that, as long
  as the best loss is a number that is not below \<open>min_tol\<close>, the updated \<open>best_loss\<close> is
  below \<open>min_tol\<close> exactly when the current loss is.
\<close>

theorem current_loss_variant_equivalent:
  assumes "0 < min_tol cfg" and "mse_loss model x y vars0 \<noteq> NaN"
  shows "train_run_current_loss x y model gradient cfg vars0 = train_run x y model gradient cfg vars0"
  unfolding train_run_current_loss_def train_run_def
proof (rule for_range_agree[where I = "best_is_number cfg vars0"])
  show "best_is_number cfg vars0 (init_state vars0)"
    by (simp add: best_is_number_def init_state_def)
next
  fix it s
  assume "best_is_number cfg vars0 s"
  then show "loop_body_current_loss x y model gradient cfg it s = loop_body x y model gradient cfg it s"
    using assms by (rule loop_body_current_loss_eq)
next
  fix it s s'
  assume a: "best_is_number cfg vars0 s" and n: "loop_body x y model gradient cfg it s = Next s'"
  show "best_is_number cfg vars0 s'"
    by (rule best_is_number_Next[OF a assms n])
qed

theorem current_loss_variant_equivalent_witness:
  "0 < min_tol (default_config\<lparr>max_epochs := 5, verbose := 1\<rparr>) \<and>
   mse_loss nan_at_zero_model [Num 1] [Num (- 1)] [Num 1] \<noteq> NaN \<and>
   train_run_current_loss [Num 1] [Num (- 1)] nan_at_zero_model (constant_gradient (Num 100)) (default_config\<lparr>max_epochs := 5, verbose := 1\<rparr>) [Num 1] = train_run [Num 1] [Num (- 1)] nan_at_zero_model (constant_gradient (Num 100)) (default_config\<lparr>max_epochs := 5, verbose := 1\<rparr>) [Num 1] \<and>
   train_run [Num 1] [Num (- 1)] nan_at_zero_model (constant_gradient (Num 100)) (default_config\<lparr>max_epochs := 5, verbose := 1\<rparr>) [Num 1] =
    Break \<lparr>variables = [Num (- 1)], best_loss = Some (Num 0),
           printed = [''mse loss at iteration 0 is 4.0000'',
                      ''mse loss at iteration 1 is   nan'',
                      ''terminated as loss less than minimal tolerance''],
           tape_calls = [[Num 1], [Num 0]],
           history = [(Num 4, Num 4), (NaN, Num 4), (Num 0, Num 0)]\<rparr>"
proof -
  have p: "0 < min_tol (default_config\<lparr>max_epochs := 5, verbose := 1\<rparr>)" by (simp add: default_config_def)
  have n: "mse_loss nan_at_zero_model [Num 1] [Num (- 1)] [Num 1] \<noteq> NaN"
    by (simp add: run_defs)
  have run: "train_run [Num 1] [Num (- 1)] nan_at_zero_model (constant_gradient (Num 100)) (default_config\<lparr>max_epochs := 5, verbose := 1\<rparr>) [Num 1] =
    Break \<lparr>variables = [Num (- 1)], best_loss = Some (Num 0),
           printed = [''mse loss at iteration 0 is 4.0000'',
                      ''mse loss at iteration 1 is   nan'',
                      ''terminated as loss less than minimal tolerance''],
           tape_calls = [[Num 1], [Num 0]],
           history = [(Num 4, Num 4), (NaN, Num 4), (Num 0, Num 0)]\<rparr>"
    by (simp add: run_defs text_defs)
  show ?thesis
    using p n run current_loss_variant_equivalent [OF p n, of "constant_gradient (Num 100)"]
    by simp
qed

text \<open>
  The claim as stated fails on a first loss of NaN. The best loss is then NaN, which is
  true as a condition and greater than nothing, so it is never replaced and never below
  \<open>min_tol\<close>: \<open>train\<close> runs all its iterations, while the loop that tests the current
  loss is left in iteration 1, where the loss is \<open>0\<close>.
\<close>

theorem current_loss_variant_counterexample:
  "0 < min_tol (default_config\<lparr>max_epochs := 3\<rparr>) \<and>
   train_run_current_loss [Num 1] [Num 2] nan_at_zero_model (constant_gradient (Num (- 200))) (default_config\<lparr>max_epochs := 3\<rparr>) [Num 0] =
     Break \<lparr>variables = [Num 2], best_loss = Some NaN,
            printed = [''mse loss at iteration 0 is   nan'',
                       ''terminated as loss less than minimal tolerance''],
            tape_calls = [[Num 0]], history = [(NaN, NaN), (Num 0, NaN)]\<rparr> \<and>
   train_run [Num 1] [Num 2] nan_at_zero_model (constant_gradient (Num (- 200))) (default_config\<lparr>max_epochs := 3\<rparr>) [Num 0] =
     Next \<lparr>variables = [Num 6], best_loss = Some NaN,
           printed = [''mse loss at iteration 0 is   nan''],
           tape_calls = [[Num 0], [Num 2], [Num 4]],
           history = [(NaN, NaN), (Num 0, NaN), (Num 4, NaN)]\<rparr> \<and>
   train_run_current_loss [Num 1] [Num 2] nan_at_zero_model (constant_gradient (Num (- 200))) (default_config\<lparr>max_epochs := 3\<rparr>) [Num 0] \<noteq> train_run [Num 1] [Num 2] nan_at_zero_model (constant_gradient (Num (- 200))) (default_config\<lparr>max_epochs := 3\<rparr>) [Num 0]"
proof -
  have p: "0 < min_tol (default_config\<lparr>max_epochs := 3\<rparr>)" by (simp add: default_config_def)
  have a: "train_run_current_loss [Num 1] [Num 2] nan_at_zero_model (constant_gradient (Num (- 200))) (default_config\<lparr>max_epochs := 3\<rparr>) [Num 0] =
     Break \<lparr>variables = [Num 2], best_loss = Some NaN,
            printed = [''mse loss at iteration 0 is   nan'',
                       ''terminated as loss less than minimal tolerance''],
            tape_calls = [[Num 0]], history = [(NaN, NaN), (Num 0, NaN)]\<rparr>"
    by (simp add: run_defs text_defs)
  have b: "train_run [Num 1] [Num 2] nan_at_zero_model (constant_gradient (Num (- 200))) (default_config\<lparr>max_epochs := 3\<rparr>) [Num 0] =
     Next \<lparr>variables = [Num 6], best_loss = Some NaN,
           printed = [''mse loss at iteration 0 is   nan''],
           tape_calls = [[Num 0], [Num 2], [Num 4]],
           history = [(NaN, NaN), (Num 0, NaN), (Num 4, NaN)]\<rparr>"
    by (simp add: run_defs text_defs)
  show ?thesis using p by (simp add: a b)
qed

end
